theory Spec2Isabelle
  imports Main
begin

text \<open>
  A model of \<^verbatim>\<open>simple_jsonrpc.py\<close>: the JSON-RPC server \<^verbatim>\<open>SimpleJsonRpcServer\<close> with its
  parameter normalisation, request dispatch, batch handling and method listing, and the
  request composition of \<^verbatim>\<open>SimpleJsonRpcClient\<close>. Exceptions are values, the state that
  handlers may change is passed explicitly, and the functions of the Python library whose
  text output the program only forwards are parameters.
\<close>

section \<open>Python values handled by the dispatcher\<close>

text \<open>
  The values \<^verbatim>\<open>json.loads\<close> produces: \<^verbatim>\<open>None\<close>, booleans, integers, floats,
  strings, lists and dictionaries with string keys. A dictionary is kept as an
  association list in insertion order; a decoded dictionary has distinct keys, and lookup
  takes the first binding of a key. A float is only ever tested for being zero here, so it
  is kept as mantissa and binary exponent, or as one of the non-finite values
  \<^verbatim>\<open>json.loads\<close> accepts. A character stands for one code point of a Python string.
\<close>

datatype pyfloat = Finite int int | Infinity bool | NaN

datatype json =
    JNull
  | JBool bool
  | JInt int
  | JFloat pyfloat
  | JStr string
  | JArr "json list"
  | JObj "(string \<times> json) list"

text \<open>Python's truth value of a decoded value, as \<^verbatim>\<open>not params\<close> and \<^verbatim>\<open>all\<close> test it.\<close>

fun float_truthy :: "pyfloat \<Rightarrow> bool" where
  "float_truthy (Finite m e) = (m \<noteq> 0)"
| "float_truthy (Infinity s) = True"
| "float_truthy NaN = True"

fun truthy :: "json \<Rightarrow> bool" where
  "truthy JNull = False"
| "truthy (JBool b) = b"
| "truthy (JInt i) = (i \<noteq> 0)"
| "truthy (JFloat f) = float_truthy f"
| "truthy (JStr s) = (s \<noteq> [])"
| "truthy (JArr xs) = (xs \<noteq> [])"
| "truthy (JObj d) = (d \<noteq> [])"

text \<open>\<^verbatim>\<open>a or b\<close> and \<^verbatim>\<open>all([...])\<close>.\<close>

definition py_or :: "json \<Rightarrow> json \<Rightarrow> json" where
  "py_or a b = (if truthy a then a else b)"

definition py_all :: "json list \<Rightarrow> bool" where
  "py_all xs = list_all truthy xs"

text \<open>\<^verbatim>\<open>d.get(k)\<close>: the value bound to the key, \<^verbatim>\<open>None\<close> when the key is missing.\<close>

definition dict_get :: "(string \<times> json) list \<Rightarrow> string \<Rightarrow> json" where
  "dict_get d k = (case map_of d k of None \<Rightarrow> JNull | Some v \<Rightarrow> v)"


section \<open>Error model\<close>

text \<open>
  The exceptions of the program. \<^verbatim>\<open>SimpleJsonRpcError\<close> carries a message and a code;
  \<^verbatim>\<open>AttributeError\<close>, \<^verbatim>\<open>TypeError\<close> and \<^verbatim>\<open>ValueError\<close> are the built-in exceptions
  the program's own operations raise; \<^verbatim>\<open>OtherException\<close> is any further exception
  derived from \<^verbatim>\<open>Exception\<close> that a handler raises, with a payload of the handler's
  choosing. \<^verbatim>\<open>SystemExit\<close>, \<^verbatim>\<open>KeyboardInterrupt\<close> and \<^verbatim>\<open>GeneratorExit\<close> derive
  from \<^verbatim>\<open>BaseException\<close> only, and \<^verbatim>\<open>OtherBaseException\<close> is any further exception
  of that kind that a handler raises.
\<close>

datatype 'x exn =
    SimpleJsonRpcError string int
  | AttributeError
  | TypeError
  | ValueError
  | OtherException 'x
  | SystemExit
  | KeyboardInterrupt
  | GeneratorExit
  | OtherBaseException 'x

text \<open>\<^verbatim>\<open>isinstance(e, Exception)\<close>: what the clause \<^verbatim>\<open>except Exception\<close> catches.\<close>

fun is_exception :: "'x exn \<Rightarrow> bool" where
  "is_exception SystemExit = False"
| "is_exception KeyboardInterrupt = False"
| "is_exception GeneratorExit = False"
| "is_exception (OtherBaseException x) = False"
| "is_exception e = True"

text \<open>The wire shape of an error, \<^verbatim>\<open>{'code': ..., 'message': ...}\<close>.\<close>

record error_obj =
  code :: int
  message :: string

definition json_rpc_format :: "string \<Rightarrow> int \<Rightarrow> error_obj" where
  "json_rpc_format msg c = \<lparr>code = c, message = msg\<rparr>"

section \<open>Library functions taken as parameters\<close>

text \<open>
  Functions of the Python library whose results the program only passes on:
  \<^verbatim>\<open>repr\<close> on a decoded value, \<^verbatim>\<open>traceback.format_exc()\<close> for the exception being
  handled, \<^verbatim>\<open>json.loads(data.decode())\<close> (\<open>None\<close> when it raises) and \<^verbatim>\<open>json.dumps\<close>.
\<close>

record 'x pylib =
  py_repr :: "json \<Rightarrow> string"
  format_exc :: "'x exn \<Rightarrow> string"
  loads :: "string \<Rightarrow> json option"
  dumps :: "json \<Rightarrow> string"

text \<open>\<^verbatim>\<open>str(v)\<close>, also what \<^verbatim>\<open>'{}'.format(v)\<close> inserts: a string is itself.\<close>

definition py_str :: "'x pylib \<Rightarrow> json \<Rightarrow> string" where
  "py_str lib v = (case v of JStr s \<Rightarrow> s | _ \<Rightarrow> py_repr lib v)"

section \<open>Responses, handlers and the registry\<close>

text \<open>A Flask \<^verbatim>\<open>Response\<close>: its body and its content type.\<close>

record response =
  body :: string
  content_type :: string

text \<open>
  What a handler returns: a JSON-serialisable value, or a \<^verbatim>\<open>Response\<close> object. A call
  either returns or raises; it may read and change a state of the application.
\<close>

datatype retval = Val json | Resp response

datatype 'x outcome = Returns retval | Raises "'x exn"

text \<open>
  A registered callable: what a call \<^verbatim>\<open>handler(*args, **kwargs)\<close> does, the text of
  \<^verbatim>\<open>str(inspect.signature(handler))\<close> and \<^verbatim>\<open>handler.__doc__\<close>.
\<close>

record ('s, 'x) handler =
  call :: "json list \<Rightarrow> (string \<times> json) list \<Rightarrow> 's \<Rightarrow> 'x outcome \<times> 's"
  signature_str :: string
  doc :: "string option"

type_synonym ('s, 'x) registry = "(string \<times> ('s, 'x) handler) list"

text \<open>
  \<^verbatim>\<open>def ping(self, *args, kwargs): return 'pong'\<close>. The parameter \<^verbatim>\<open>kwargs\<close> follows
  \<^verbatim>\<open>*args\<close> without \<^verbatim>\<open>**\<close>: it is a required keyword-only parameter, and the function
  takes no other keyword. A call binds its arguments only when the keywords are exactly
  \<^verbatim>\<open>kwargs\<close>; any other call raises \<^verbatim>\<open>TypeError\<close>.
\<close>

definition ping :: "('s, 'x) handler" where
  "ping =
     \<lparr>call = (\<lambda>args kwargs st.
         (if list_all (\<lambda>k. k = ''kwargs'') (map fst kwargs) \<and> kwargs \<noteq> []
          then Returns (Val (JStr ''pong''))
          else Raises TypeError, st)),
      signature_str = ''(*args, kwargs)'',
      doc = None\<rparr>"

record ('s, 'x) server =
  service_url :: string
  show_api :: bool
  urls :: "('s, 'x) registry"

text \<open>\<^verbatim>\<open>__init__\<close> and \<^verbatim>\<open>register(name)(f)\<close>.\<close>

definition init :: "string \<Rightarrow> bool \<Rightarrow> ('s, 'x) server" where
  "init url api = \<lparr>service_url = url, show_api = api, urls = [(''ping'', ping)]\<rparr>"


section \<open>Parameter normalisation\<close>

text \<open>
  \<^verbatim>\<open>__expand_params(params)\<close>: a falsy value gives no arguments; a list gives positional
  arguments, a dictionary named ones; anything else raises. Its only caller passes a
  decoded JSON value, which is never a tuple.
\<close>

definition expand_params :: "json \<Rightarrow> 'x exn + (json list \<times> (string \<times> json) list)" where
  "expand_params params =
     (if \<not> truthy params then Inr ([], [])
      else case params of
        JArr xs \<Rightarrow> Inr (xs, [])
      | JObj d \<Rightarrow> Inr ([], d)
      | _ \<Rightarrow> Inl (SimpleJsonRpcError ''Invalid method parameters'' (- 32602)))"

section \<open>The dispatcher\<close>

text \<open>
  \<^verbatim>\<open>handler_name not in self.urls\<close> followed by \<^verbatim>\<open>self.urls[handler_name]\<close>. The keys of
  the registry are strings. A list or a dictionary is unhashable, and the membership test
  raises \<^verbatim>\<open>TypeError\<close>; another value that is no string equals no key.
\<close>

fun lookup :: "('s, 'x) registry \<Rightarrow> json \<Rightarrow> 'x exn + ('s, 'x) handler option" where
  "lookup reg (JStr s) = Inr (map_of reg s)"
| "lookup reg (JArr xs) = Inl TypeError"
| "lookup reg (JObj d) = Inl TypeError"
| "lookup reg v = Inr None"

text \<open>The local variables that survive the \<^verbatim>\<open>try\<close> block, and the exception it ended with.\<close>

record 'x locals =
  l_protocol :: json
  l_tid :: json
  l_handler_name :: json
  l_result :: retval
  l_raised :: "'x exn option"

text \<open>
  Lines 95 to 113 of the \<^verbatim>\<open>try\<close> block: the handler is looked up and called with
  \<^verbatim>\<open>handler(*args, **kwargs)\<close>. The calls to \<^verbatim>\<open>logging\<close> and \<^verbatim>\<open>time\<close> change no
  variable and are left out.
\<close>

definition resolve_and_call ::
  "'x pylib \<Rightarrow> ('s, 'x) registry \<Rightarrow> 'x locals \<Rightarrow> json list \<Rightarrow> (string \<times> json) list \<Rightarrow> 's
     \<Rightarrow> 'x locals \<times> 's" where
  \<open>resolve_and_call lib reg l args kwargs st =
     (case lookup reg (l_handler_name l) of
        Inl e \<Rightarrow> (l\<lparr>l_raised := Some e\<rparr>, st)
      | Inr None \<Rightarrow>
          (l\<lparr>l_raised := Some (SimpleJsonRpcError
              (''JSON-RPC: Method "'' @ py_str lib (l_handler_name l) @ ''" not found'')
              (- 32601))\<rparr>, st)
      | Inr (Some h) \<Rightarrow>
          (case call h args kwargs st of
             (Returns r, st') \<Rightarrow> (l\<lparr>l_result := r\<rparr>, st')
           | (Raises e, st') \<Rightarrow> (l\<lparr>l_raised := Some e\<rparr>, st')))\<close>

text \<open>
  The \<^verbatim>\<open>try\<close> block of \<^verbatim>\<open>process_request\<close>, statement by statement. \<^verbatim>\<open>items.get\<close>
  exists only on a dictionary; on any other decoded value the first statement raises
  \<^verbatim>\<open>AttributeError\<close>. The parameters are normalised before \<^verbatim>\<open>method\<close>,
  \<^verbatim>\<open>version\<close> and \<^verbatim>\<open>id\<close> are read.
\<close>

definition try_block ::
  "'x pylib \<Rightarrow> ('s, 'x) registry \<Rightarrow> json \<Rightarrow> 's \<Rightarrow> 'x locals \<times> 's" where
  "try_block lib reg items st =
     (let l0 = \<lparr>l_protocol = JNull, l_tid = JNull, l_handler_name = JNull,
                l_result = Val JNull, l_raised = None\<rparr>
      in case items of
        JObj d \<Rightarrow>
          (case expand_params (dict_get d ''params'') of
             Inl e \<Rightarrow> (l0\<lparr>l_raised := Some e\<rparr>, st)
           | Inr (args, kwargs) \<Rightarrow>
               (let handler_name = dict_get d ''method'';
                    protocol = dict_get d ''version'';
                    tid = dict_get d ''id'';
                    l1 = l0\<lparr>l_protocol := protocol, l_tid := tid,
                            l_handler_name := handler_name\<rparr>
                in if \<not> py_all [py_or (JArr args) (JObj kwargs), handler_name, protocol, tid]
                   then (l1\<lparr>l_raised := Some (SimpleJsonRpcError
                           (''JSON-RPC: Invalid request parameters:'' @ py_str lib items)
                           (- 32600))\<rparr>, st)
                   else resolve_and_call lib reg l1 args kwargs st))
      | _ \<Rightarrow> (l0\<lparr>l_raised := Some AttributeError\<rparr>, st))"

text \<open>
  The two \<^verbatim>\<open>except\<close> clauses, for an exception they catch: a \<^verbatim>\<open>SimpleJsonRpcError\<close>
  is kept; every other exception derived from \<^verbatim>\<open>Exception\<close> becomes a
  \<^verbatim>\<open>SimpleJsonRpcError\<close> with the traceback as message and code -32603.
\<close>

fun caught :: "'x pylib \<Rightarrow> 'x exn \<Rightarrow> error_obj" where
  "caught lib (SimpleJsonRpcError msg c) = json_rpc_format msg c"
| "caught lib e = json_rpc_format (format_exc lib e) (- 32603)"

text \<open>
  The response dictionary of \<^verbatim>\<open>process_request\<close>; the field \<open>rpc_method\<close> is its key
  \<^verbatim>\<open>'method'\<close>.
\<close>

record envelope =
  protocol :: json
  tid :: json
  action :: json
  rpc_method :: json
  result :: json
  error :: "error_obj option"

text \<open>
  How a call of \<^verbatim>\<open>process_request\<close> ends: it returns the handler's \<^verbatim>\<open>Response\<close>, it
  returns the response dictionary, or an exception that no clause catches leaves it.
\<close>

datatype 'x presult = Passthrough response | Envelope envelope | Uncaught "'x exn"

text \<open>Lines 121 to 135: the result is returned as it is or wrapped, with the error if any.\<close>

definition assemble :: "'x locals \<Rightarrow> error_obj option \<Rightarrow> 'x presult" where
  "assemble l err =
     (case l_result l of
        Resp r \<Rightarrow> Passthrough r
      | Val v \<Rightarrow>
          Envelope \<lparr>protocol = l_protocol l, tid = l_tid l, action = JNull,
                    rpc_method = l_handler_name l, result = v, error = err\<rparr>)"

definition process_request ::
  "'x pylib \<Rightarrow> ('s, 'x) registry \<Rightarrow> json \<Rightarrow> 's \<Rightarrow> 'x presult \<times> 's" where
  "process_request lib reg items st =
     (case try_block lib reg items st of
        (l, st') \<Rightarrow>
          (case l_raised l of
             None \<Rightarrow> assemble l None
           | Some e \<Rightarrow>
               if is_exception e then assemble l (Some (caught lib e)) else Uncaught e,
           st'))"

section \<open>The transport adapter\<close>

text \<open>
  The per-item loop of \<^verbatim>\<open>prepare_request\<close>: every element of the decoded array is
  dispatched in turn, and its response is appended to the result list. An exception that
  leaves \<^verbatim>\<open>process_request\<close> ends the loop.
\<close>

fun batch ::
  "'x pylib \<Rightarrow> ('s, 'x) registry \<Rightarrow> json list \<Rightarrow> 's \<Rightarrow> ('x exn + 'x presult list) \<times> 's" where
  "batch lib reg [] st = (Inr [], st)"
| "batch lib reg (item # rest) st =
     (case process_request lib reg item st of
        (Uncaught e, st1) \<Rightarrow> (Inl e, st1)
      | (r, st1) \<Rightarrow>
          (case batch lib reg rest st1 of
             (Inl e, st2) \<Rightarrow> (Inl e, st2)
           | (Inr rs, st2) \<Rightarrow> (Inr (r # rs), st2)))"

text \<open>
  What leaves \<^verbatim>\<open>prepare_request\<close> other than a response: \<^verbatim>\<open>abort(404)\<close>, or an
  exception that no clause catches.
\<close>

datatype 'x failure = Abort nat | Propagated "'x exn"

text \<open>The response dictionary as \<^verbatim>\<open>json.dumps\<close> receives it.\<close>

definition envelope_json :: "envelope \<Rightarrow> json" where
  "envelope_json e =
     JObj ([(''protocol'', protocol e), (''tid'', tid e), (''action'', action e),
            (''method'', rpc_method e), (''result'', result e)] @
           (case error e of
              None \<Rightarrow> []
            | Some eo \<Rightarrow>
                [(''error'', JObj [(''code'', JInt (code eo)), (''message'', JStr (message eo))])]))"

text \<open>
  \<^verbatim>\<open>json.dumps\<close> on the result list of a batch: a \<^verbatim>\<open>Response\<close> object among the items
  is not serialisable and raises \<^verbatim>\<open>TypeError\<close>.
\<close>

fun envelopes :: "'x presult list \<Rightarrow> 'x exn + json list" where
  "envelopes [] = Inr []"
| "envelopes (Envelope e # rs) =
     (case envelopes rs of Inl x \<Rightarrow> Inl x | Inr js \<Rightarrow> Inr (envelope_json e # js))"
| "envelopes (Passthrough r # rs) = Inl TypeError"
| "envelopes (Uncaught x # rs) = Inl x"

text \<open>
  Lines 67 to 79: a decoded list is dispatched item by item, anything else as one request;
  a \<^verbatim>\<open>Response\<close> is returned as it is, any other result is serialised, and an
  exception that left \<^verbatim>\<open>process_request\<close> leaves \<^verbatim>\<open>prepare_request\<close> too.
\<close>

definition dispatch_items ::
  "'x pylib \<Rightarrow> ('s, 'x) registry \<Rightarrow> json \<Rightarrow> 's \<Rightarrow> ('x failure + response) \<times> 's" where
  "dispatch_items lib reg items st =
     (case items of
        JArr xs \<Rightarrow>
          (case batch lib reg xs st of
             (Inl x, st') \<Rightarrow> (Inl (Propagated x), st')
           | (Inr rs, st') \<Rightarrow>
               (case envelopes rs of
                  Inl x \<Rightarrow> Inl (Propagated x)
                | Inr js \<Rightarrow> Inr \<lparr>body = dumps lib (JArr js), content_type = ''application/json''\<rparr>,
                st'))
      | _ \<Rightarrow>
          (case process_request lib reg items st of
             (Passthrough r, st') \<Rightarrow> (Inr r, st')
           | (Envelope e, st') \<Rightarrow>
               (Inr \<lparr>body = dumps lib (envelope_json e), content_type = ''application/json''\<rparr>,
                st')
           | (Uncaught x, st') \<Rightarrow> (Inl (Propagated x), st')))"









section \<open>The dynamic client\<close>

text \<open>
  The attributes of a client. \<^verbatim>\<open>__getattr__\<close> hands the whole attribute dictionary to
  the constructor as its first positional argument, so \<^verbatim>\<open>service_url\<close> holds either a
  string or such a dictionary, which has the four attributes as its keys.
\<close>

datatype client =
  SimpleJsonRpcClient (c_service_url: client_url) (c_service_name: "string option")
    (c_version: string) (c_headers: "(string \<times> string) list")
and client_url = Url string | Attrs client

text \<open>
  \<^verbatim>\<open>__init__(self, service_url, service_name=None, version='2.0', headers=None)\<close>, with
  \<^verbatim>\<open>headers or {'Content-Type': 'application/json'}\<close>.
\<close>

definition client_init ::
  "client_url \<Rightarrow> string option \<Rightarrow> string \<Rightarrow> (string \<times> string) list option \<Rightarrow> client" where
  "client_init url name ver hdrs =
     SimpleJsonRpcClient url name ver
       (case hdrs of
          None \<Rightarrow> [(''Content-Type'', ''application/json'')]
        | Some h \<Rightarrow> if h = [] then [(''Content-Type'', ''application/json'')] else h)"

text \<open>
  \<^verbatim>\<open>__getattr__(self, name)\<close>, called for a name that is no attribute and no method of
  the client: \<^verbatim>\<open>params = dict(self.__dict__, service_name=name)\<close> and
  \<^verbatim>\<open>self.__class__(params)\<close>.
\<close>

definition getattr :: "client \<Rightarrow> string \<Rightarrow> client" where
  "getattr c name =
     (let name' = (case c_service_name c of None \<Rightarrow> name | Some s \<Rightarrow> s @ ''.'' @ name);
          params = SimpleJsonRpcClient (c_service_url c) (Some name') (c_version c) (c_headers c)
      in client_init (Attrs params) None ''2.0'' None)"

text \<open>
  An argument of a call of \<^verbatim>\<open>send_request\<close>: a \<^verbatim>\<open>bytes\<close> object, or a value without a
  \<^verbatim>\<open>decode\<close> method (a number, a string, a list, a dictionary, \<^verbatim>\<open>None\<close>).
\<close>

datatype pyarg = Bytes string | NotBytes json

text \<open>
  \<^verbatim>\<open>list(map(lambda s: s.decode("utf-8"), params))\<close> over positional arguments, from the
  left; \<open>dec\<close> is UTF-8 decoding, \<open>None\<close> when the bytes are no UTF-8.
\<close>

fun decode_all :: "(string \<Rightarrow> string option) \<Rightarrow> pyarg list \<Rightarrow> 'x exn + string list" where
  "decode_all dec [] = Inr []"
| "decode_all dec (Bytes b # xs) =
     (case dec b of
        None \<Rightarrow> Inl ValueError
      | Some s \<Rightarrow> (case decode_all dec xs of Inl e \<Rightarrow> Inl e | Inr ss \<Rightarrow> Inr (s # ss)))"
| "decode_all dec (NotBytes v # xs) = Inl AttributeError"

text \<open>The dictionary \<^verbatim>\<open>send_request\<close> serialises; \<open>p_id\<close> is \<^verbatim>\<open>str(uuid.uuid4())\<close>.\<close>

record payload =
  p_version :: string
  p_method :: "string option"
  p_params :: "string list"
  p_id :: string

text \<open>
  Lines 186 to 193 of \<^verbatim>\<open>send_request(self, *args, **kwargs)\<close>, up to the dictionary that
  is serialised. With keyword arguments, \<^verbatim>\<open>map\<close> runs over the keys of \<^verbatim>\<open>kwargs\<close>,
  which are strings and have no \<^verbatim>\<open>decode\<close>.
\<close>

definition send_request_payload ::
  "(string \<Rightarrow> string option) \<Rightarrow> string \<Rightarrow> client \<Rightarrow> pyarg list \<Rightarrow> (string \<times> pyarg) list
     \<Rightarrow> 'x exn + payload" where
  "send_request_payload dec uid c args kwargs =
     (if kwargs \<noteq> [] then Inl AttributeError
      else case decode_all dec args of
        Inl e \<Rightarrow> Inl e
      | Inr ps \<Rightarrow>
          Inr \<lparr>p_version = c_version c, p_method = c_service_name c, p_params = ps,
               p_id = uid\<rparr>)"

section \<open>A library instance for concrete requests\<close>

text \<open>
  The library parameters with fixed texts in place of \<^verbatim>\<open>repr\<close>, the traceback and
  the serialised body, for running the program on concrete requests.
\<close>

definition sample_lib :: "unit pylib" where
  "sample_lib =
     \<lparr>py_repr = (\<lambda>v. ''<repr>''), format_exc = (\<lambda>e. ''<traceback>''),
      loads = (\<lambda>s. None), dumps = (\<lambda>j. ''<json>'')\<rparr>"

section \<open>The stages of the try block\<close>

lemma py_all4: "py_all [a, b, c, d] = (truthy a \<and> truthy b \<and> truthy c \<and> truthy d)"
  by (simp add: py_all_def)

lemma truthy_py_or: "truthy (py_or (JArr args) (JObj kwargs)) = (args \<noteq> [] \<or> kwargs \<noteq> [])"
  by (simp add: py_or_def)

lemma try_block_bad_params:
  assumes "expand_params (dict_get d ''params'') = (Inl e :: 'x exn + _)"
  shows "try_block (lib :: 'x pylib) reg (JObj d) st =
    (\<lparr>l_protocol = JNull, l_tid = JNull, l_handler_name = JNull, l_result = Val JNull,
      l_raised = Some e\<rparr>, st)"
  using assms by (simp add: try_block_def)

lemma try_block_invalid:
  assumes "expand_params (dict_get d ''params'') = (Inr (args, kwargs) :: 'x exn + _)"
    and "\<not> py_all [py_or (JArr args) (JObj kwargs), dict_get d ''method'',
                   dict_get d ''version'', dict_get d ''id'']"
  shows "try_block (lib :: 'x pylib) reg (JObj d) st =
    (\<lparr>l_protocol = dict_get d ''version'', l_tid = dict_get d ''id'',
      l_handler_name = dict_get d ''method'', l_result = Val JNull,
      l_raised = Some (SimpleJsonRpcError
        (''JSON-RPC: Invalid request parameters:'' @ py_str lib (JObj d)) (- 32600))\<rparr>, st)"
  using assms by (simp add: try_block_def Let_def)

lemma try_block_valid:
  assumes "expand_params (dict_get d ''params'') = (Inr (args, kwargs) :: 'x exn + _)"
    and "py_all [py_or (JArr args) (JObj kwargs), dict_get d ''method'',
                 dict_get d ''version'', dict_get d ''id'']"
  shows "try_block (lib :: 'x pylib) reg (JObj d) st =
    resolve_and_call lib reg
      \<lparr>l_protocol = dict_get d ''version'', l_tid = dict_get d ''id'',
        l_handler_name = dict_get d ''method'', l_result = Val JNull, l_raised = None\<rparr>
      args kwargs st"
  using assms by (simp add: try_block_def Let_def)

lemma resolve_and_call_raised_result:
  assumes "resolve_and_call lib reg l0 args kwargs st = (l, st')" and "l_raised l0 = None"
    and "l_raised l = Some e"
  shows "l_result l = l_result l0"
  using assms
  by (auto simp: resolve_and_call_def split: sum.splits option.splits prod.splits outcome.splits)

lemma try_block_raised_result:
  assumes "try_block (lib :: 'x pylib) reg items st = (l, st')" and "l_raised l = Some e"
  shows "l_result l = Val JNull"
proof (cases items)
  case (JObj d)
  show ?thesis
  proof (cases "expand_params (dict_get d ''params'') ::  'x exn + _")
    case (Inl x)
    with assms JObj show ?thesis by (auto simp: try_block_bad_params)
  next
    case (Inr ak)
    obtain args kwargs where ak: "ak = (args, kwargs)" by (cases ak)
    show ?thesis
    proof (cases "py_all [py_or (JArr args) (JObj kwargs), dict_get d ''method'',
                 dict_get d ''version'', dict_get d ''id'']")
      case True
      have "resolve_and_call lib reg
          \<lparr>l_protocol = dict_get d ''version'', l_tid = dict_get d ''id'',
            l_handler_name = dict_get d ''method'', l_result = Val JNull, l_raised = None\<rparr>
          args kwargs st = (l, st')"
        using try_block_valid[OF Inr[unfolded ak] True, of lib reg st] assms(1) JObj by simp
      from resolve_and_call_raised_result[OF this _ assms(2)] show ?thesis by simp
    next
      case False
      from try_block_invalid[OF Inr[unfolded ak] False, of lib reg st] assms JObj
      show ?thesis by auto
    qed
  qed
qed (use assms in \<open>auto simp: try_block_def\<close>)


lemma resolve_and_call_raises:
  assumes "lookup reg (l_handler_name l) = Inr (Some h)"
    and "call h args kwargs st = (Raises e, st')"
  shows "resolve_and_call lib reg l args kwargs st = (l\<lparr>l_raised := Some e\<rparr>, st')"
  using assms by (simp add: resolve_and_call_def)

lemma caught_unexpected:
  assumes "\<forall>m c. e \<noteq> SimpleJsonRpcError m c"
  shows "caught lib e = \<lparr>code = - 32603, message = format_exc lib e\<rparr>"
  using assms by (cases e) (simp_all add: json_rpc_format_def)

section \<open>Parameter normalisation: absent and falsy values\<close>

text \<open>
  C5. A falsy \<^verbatim>\<open>params\<close> value (0, the empty string, false, an empty array, an empty
  object, null) is normalised to the pair of no positional and no named arguments and
  raises nothing; the invalid-parameters error is raised exactly for the truthy values
  that are neither an array nor an object.
\<close>

theorem expand_params_falsy_absent:
  "(\<not> truthy p \<longrightarrow> expand_params p = (Inr ([], []) :: 'x exn + _)) \<and>
   ((\<exists>e. expand_params p = (Inl e :: 'x exn + _)) \<longleftrightarrow>
      truthy p \<and> (\<forall>xs. p \<noteq> JArr xs) \<and> (\<forall>d. p \<noteq> JObj d)) \<and>
   (\<forall>e. expand_params p = (Inl e :: 'x exn + _) \<longrightarrow>
      e = SimpleJsonRpcError ''Invalid method parameters'' (- 32602))"
  by (cases p) (auto simp: expand_params_def)

theorem expand_params_falsy_absent_witness:
  "\<not> truthy (JInt 0) \<and> expand_params (JInt 0) = (Inr ([], []) :: unit exn + _) \<and>
   \<not> truthy (JStr []) \<and> expand_params (JStr []) = (Inr ([], []) :: unit exn + _) \<and>
   \<not> truthy (JBool False) \<and> expand_params (JBool False) = (Inr ([], []) :: unit exn + _) \<and>
   \<not> truthy JNull \<and> expand_params JNull = (Inr ([], []) :: unit exn + _) \<and>
   truthy (JInt 5) \<and>
   expand_params (JInt 5) =
     (Inl (SimpleJsonRpcError ''Invalid method parameters'' (- 32602)) :: unit exn + _)"
  using expand_params_falsy_absent[of "JInt 0", where 'x = unit]
    expand_params_falsy_absent[of "JStr []", where 'x = unit]
    expand_params_falsy_absent[of "JBool False", where 'x = unit]
    expand_params_falsy_absent[of JNull, where 'x = unit]
    expand_params_falsy_absent[of "JInt 5", where 'x = unit]
  by auto

section \<open>Parameter normalisation: scalar values\<close>

lemma process_request_bad_params:
  fixes lib :: "'x pylib"
  assumes "expand_params (dict_get d ''params'') = (Inl e :: 'x exn + _)"
    and "is_exception e"
  shows "process_request lib reg (JObj d) st =
    (Envelope \<lparr>protocol = JNull, tid = JNull, action = JNull, rpc_method = JNull,
       result = JNull, error = Some (caught lib e)\<rparr>, st)"
  using try_block_bad_params[OF assms(1), of lib reg st] assms(2)
  by (simp add: process_request_def assemble_def)

lemma expand_params_truthy_scalar:
  assumes "truthy p" and "\<forall>xs. p \<noteq> JArr xs" and "\<forall>kv. p \<noteq> JObj kv"
  shows "expand_params p = Inl (SimpleJsonRpcError ''Invalid method parameters'' (- 32602))"
  using assms by (cases p) (simp_all add: expand_params_def)

text \<open>
  C4, counterexample. The scalars 0, the empty string and false are not rejected:
  normalisation returns the empty pair for them, and a request whose \<^verbatim>\<open>params\<close> is 0 is
  answered with code -32600 by the presence check, not with -32602.
\<close>

theorem falsy_scalar_params_not_rejected:
  "expand_params (JInt 0) = (Inr ([], []) :: unit exn + _) \<and>
   expand_params (JStr []) = (Inr ([], []) :: unit exn + _) \<and>
   expand_params (JBool False) = (Inr ([], []) :: unit exn + _) \<and>
   process_request sample_lib (urls (init ''/json-rpc/'' False))
     (JObj [(''version'', JStr ''2.0''), (''method'', JStr ''ping''), (''id'', JStr ''1''),
            (''params'', JInt 0)]) () =
   (Envelope \<lparr>protocol = JStr ''2.0'', tid = JStr ''1'', action = JNull,
      rpc_method = JStr ''ping'', result = JNull,
      error = Some \<lparr>code = - 32600,
        message = ''JSON-RPC: Invalid request parameters:<repr>''\<rparr>\<rparr>, ())"
  by (simp add: process_request_def assemble_def try_block_def expand_params_def dict_get_def py_all_def
      py_or_def py_str_def sample_lib_def json_rpc_format_def)

text \<open>
  C4, as amended. For every request object whose \<^verbatim>\<open>params\<close> is a truthy value that is
  neither an array nor an object (a non-zero number, a non-empty string, true),
  normalisation fails with \<^verbatim>\<open>Invalid method parameters\<close> and the response carries the
  error code -32602; no handler runs.
\<close>

theorem truthy_scalar_params_rejected:
  fixes lib :: "'x pylib"
  assumes "truthy p" and "\<forall>xs. p \<noteq> JArr xs" and "\<forall>kv. p \<noteq> JObj kv"
    and "dict_get d ''params'' = p"
  shows "expand_params p =
           (Inl (SimpleJsonRpcError ''Invalid method parameters'' (- 32602)) :: 'x exn + _) \<and>
         process_request lib reg (JObj d) st =
           (Envelope \<lparr>protocol = JNull, tid = JNull, action = JNull, rpc_method = JNull,
              result = JNull,
              error = Some \<lparr>code = - 32602, message = ''Invalid method parameters''\<rparr>\<rparr>, st)"
proof -
  have e: "expand_params p =
      (Inl (SimpleJsonRpcError ''Invalid method parameters'' (- 32602)) :: 'x exn + _)"
    using assms(1-3) by (rule expand_params_truthy_scalar)
  then have "expand_params (dict_get d ''params'') =
      (Inl (SimpleJsonRpcError ''Invalid method parameters'' (- 32602)) :: 'x exn + _)"
    using assms(4) by simp
  from process_request_bad_params[OF this, of lib reg st] e show ?thesis
    by (simp add: json_rpc_format_def)
qed

theorem truthy_scalar_params_rejected_witness:
  "truthy (JInt 5) \<and> dict_get [(''method'', JStr ''ping''), (''params'', JInt 5)] ''params'' = JInt 5 \<and>
   expand_params (JInt 5) =
     (Inl (SimpleJsonRpcError ''Invalid method parameters'' (- 32602)) :: unit exn + _) \<and>
   process_request sample_lib (urls (init ''/json-rpc/'' False))
     (JObj [(''method'', JStr ''ping''), (''params'', JInt 5)]) () =
   (Envelope \<lparr>protocol = JNull, tid = JNull, action = JNull, rpc_method = JNull,
      result = JNull,
      error = Some \<lparr>code = - 32602, message = ''Invalid method parameters''\<rparr>\<rparr>, ())"
proof -
  have t: "truthy (JInt 5)" by simp
  have a: "\<forall>xs. JInt 5 \<noteq> JArr xs" by simp
  have o: "\<forall>kv. JInt 5 \<noteq> JObj kv" by simp
  have g: "dict_get [(''method'', JStr ''ping''), (''params'', JInt 5)] ''params'' = JInt 5"
    by (simp add: dict_get_def)
  from truthy_scalar_params_rejected[OF t a o g, of sample_lib "urls (init ''/json-rpc/'' False)" "()"]
    t g show ?thesis by simp
qed

section \<open>Presence validation\<close>

text \<open>
  C1, counterexample. A request with truthy \<^verbatim>\<open>method\<close>, \<^verbatim>\<open>version\<close> and \<^verbatim>\<open>id\<close> and
  no \<^verbatim>\<open>params\<close> at all is rejected with code -32600.
\<close>

theorem request_without_params_rejected:
  "truthy (JStr ''ping'') \<and> truthy (JStr ''2.0'') \<and> truthy (JStr ''1'') \<and>
   process_request sample_lib (urls (init ''/json-rpc/'' False))
     (JObj [(''version'', JStr ''2.0''), (''method'', JStr ''ping''), (''id'', JStr ''1'')]) () =
   (Envelope \<lparr>protocol = JStr ''2.0'', tid = JStr ''1'', action = JNull,
      rpc_method = JStr ''ping'', result = JNull,
      error = Some \<lparr>code = - 32600,
        message = ''JSON-RPC: Invalid request parameters:<repr>''\<rparr>\<rparr>, ())"
  by (simp add: process_request_def assemble_def try_block_def expand_params_def dict_get_def py_all_def
      py_or_def py_str_def sample_lib_def json_rpc_format_def)

text \<open>
  C1, as amended. For a request object whose \<^verbatim>\<open>params\<close> normalise, the presence check
  passes, and the request goes on to handler lookup, exactly when all four of the
  normalised parameters, \<^verbatim>\<open>method\<close>, \<^verbatim>\<open>version\<close> and \<^verbatim>\<open>id\<close> are non-empty; when any
  one of them is empty the request is rejected with code -32600, the message holds the
  offending payload, and no handler runs.
\<close>

theorem presence_validation_requires_all:
  fixes lib :: "'x pylib"
  assumes "expand_params (dict_get d ''params'') = (Inr (args, kwargs) :: 'x exn + _)"
  shows
    "(\<not> ((args \<noteq> [] \<or> kwargs \<noteq> []) \<and> truthy (dict_get d ''method'') \<and>
         truthy (dict_get d ''version'') \<and> truthy (dict_get d ''id'')) \<longrightarrow>
        process_request lib reg (JObj d) st =
          (Envelope \<lparr>protocol = dict_get d ''version'', tid = dict_get d ''id'', action = JNull,
             rpc_method = dict_get d ''method'', result = JNull,
             error = Some \<lparr>code = - 32600,
               message = ''JSON-RPC: Invalid request parameters:'' @ py_str lib (JObj d)\<rparr>\<rparr>,
           st)) \<and>
     ((args \<noteq> [] \<or> kwargs \<noteq> []) \<and> truthy (dict_get d ''method'') \<and>
        truthy (dict_get d ''version'') \<and> truthy (dict_get d ''id'') \<longrightarrow>
        try_block lib reg (JObj d) st =
          resolve_and_call lib reg
            \<lparr>l_protocol = dict_get d ''version'', l_tid = dict_get d ''id'',
              l_handler_name = dict_get d ''method'', l_result = Val JNull, l_raised = None\<rparr>
            args kwargs st)"
proof (intro conjI impI)
  assume bad: "\<not> ((args \<noteq> [] \<or> kwargs \<noteq> []) \<and> truthy (dict_get d ''method'') \<and>
         truthy (dict_get d ''version'') \<and> truthy (dict_get d ''id''))"
  then have "\<not> py_all [py_or (JArr args) (JObj kwargs), dict_get d ''method'',
                   dict_get d ''version'', dict_get d ''id'']"
    by (simp add: py_all4 truthy_py_or)
  from try_block_invalid[OF assms this, of lib reg st]
  show "process_request lib reg (JObj d) st =
          (Envelope \<lparr>protocol = dict_get d ''version'', tid = dict_get d ''id'', action = JNull,
             rpc_method = dict_get d ''method'', result = JNull,
             error = Some \<lparr>code = - 32600,
               message = ''JSON-RPC: Invalid request parameters:'' @ py_str lib (JObj d)\<rparr>\<rparr>,
           st)"
    by (simp add: process_request_def assemble_def json_rpc_format_def)
next
  assume ok: "(args \<noteq> [] \<or> kwargs \<noteq> []) \<and> truthy (dict_get d ''method'') \<and>
        truthy (dict_get d ''version'') \<and> truthy (dict_get d ''id'')"
  then have "py_all [py_or (JArr args) (JObj kwargs), dict_get d ''method'',
                   dict_get d ''version'', dict_get d ''id'']"
    by (simp add: py_all4 truthy_py_or)
  from try_block_valid[OF assms this, of lib reg st]
  show "try_block lib reg (JObj d) st =
          resolve_and_call lib reg
            \<lparr>l_protocol = dict_get d ''version'', l_tid = dict_get d ''id'',
              l_handler_name = dict_get d ''method'', l_result = Val JNull, l_raised = None\<rparr>
            args kwargs st" .
qed

theorem presence_validation_requires_all_witness:
  "expand_params (dict_get [(''version'', JStr ''2.0''), (''method'', JStr ''echo'')] ''params'') =
     (Inr ([], []) :: unit exn + _) \<and>
   process_request sample_lib ([] :: (unit, unit) registry)
     (JObj [(''version'', JStr ''2.0''), (''method'', JStr ''echo'')]) () =
   (Envelope \<lparr>protocol = JStr ''2.0'', tid = JNull, action = JNull,
      rpc_method = JStr ''echo'', result = JNull,
      error = Some \<lparr>code = - 32600,
        message = ''JSON-RPC: Invalid request parameters:<repr>''\<rparr>\<rparr>, ()) \<and>
   expand_params (dict_get [(''version'', JStr ''2.0''), (''method'', JStr ''echo''),
       (''id'', JInt 3), (''params'', JArr [JInt 1])] ''params'') =
     (Inr ([JInt 1], []) :: unit exn + _) \<and>
   try_block sample_lib ([] :: (unit, unit) registry)
     (JObj [(''version'', JStr ''2.0''), (''method'', JStr ''echo''),
       (''id'', JInt 3), (''params'', JArr [JInt 1])]) () =
   resolve_and_call sample_lib []
     \<lparr>l_protocol = JStr ''2.0'', l_tid = JInt 3, l_handler_name = JStr ''echo'',
       l_result = Val JNull, l_raised = None\<rparr> [JInt 1] [] ()"
proof -
  have a: "expand_params (dict_get [(''version'', JStr ''2.0''), (''method'', JStr ''echo'')]
      ''params'') = (Inr ([], []) :: unit exn + _)"
    by (simp add: expand_params_def dict_get_def)
  have b: "expand_params (dict_get [(''version'', JStr ''2.0''), (''method'', JStr ''echo''),
       (''id'', JInt 3), (''params'', JArr [JInt 1])] ''params'') =
     (Inr ([JInt 1], []) :: unit exn + _)"
    by (simp add: expand_params_def dict_get_def)
  show ?thesis
    using a b presence_validation_requires_all[OF a, of sample_lib "[]" "()"]
      presence_validation_requires_all[OF b, of sample_lib "[]" "()"]
    by (simp add: dict_get_def py_str_def sample_lib_def)
qed

section \<open>Error precedence\<close>

text \<open>
  C6. A request with a bad \<^verbatim>\<open>params\<close> shape that names an unregistered method is answered
  with code -32602 whatever the registry holds, and the state is untouched. The response
  carries \<^verbatim>\<open>None\<close> for protocol, id and method although the request gives all three:
  the parameters are normalised before the three fields are read.
\<close>

theorem bad_params_response_drops_request_fields:
  "process_request lib reg
     (JObj [(''version'', JStr ''2.0''), (''id'', JStr ''7''), (''method'', JStr ''nope''),
            (''params'', JInt 5)]) st =
   (Envelope \<lparr>protocol = JNull, tid = JNull, action = JNull, rpc_method = JNull,
      result = JNull,
      error = Some \<lparr>code = - 32602, message = ''Invalid method parameters''\<rparr>\<rparr>, st)"
  by (simp add: process_request_def assemble_def try_block_def expand_params_def dict_get_def
      json_rpc_format_def)

section \<open>Handler lookup\<close>




section \<open>The catch-all clause\<close>

text \<open>
  C8, counterexample. A handler that raises \<^verbatim>\<open>SystemExit\<close>, which derives from
  \<^verbatim>\<open>BaseException\<close> only: neither \<^verbatim>\<open>except\<close> clause catches it, the exception leaves
  \<^verbatim>\<open>process_request\<close>, and no response is returned.
\<close>

theorem handler_system_exit_propagates:
  "process_request sample_lib
     [(''quit'', \<lparr>call = (\<lambda>args kwargs st. (Raises SystemExit, st)),
                  signature_str = ''()'', doc = None\<rparr>)]
     (JObj [(''version'', JStr ''2.0''), (''method'', JStr ''quit''), (''id'', JStr ''1''),
            (''params'', JArr [JInt 1])]) () =
   (Uncaught SystemExit, ())"
  by (simp add: process_request_def try_block_def resolve_and_call_def expand_params_def
      dict_get_def py_all_def py_or_def)

text \<open>
  C8, as amended. When the handler of a valid request raises an exception derived from
  \<^verbatim>\<open>Exception\<close> that is no \<^verbatim>\<open>SimpleJsonRpcError\<close>, the dispatcher returns a response
  with error code -32603 whose message is the traceback, together with the protocol, id
  and method of the request. The same holds for every such exception that ends the
  \<^verbatim>\<open>try\<close> block on any decoded value: it is turned into such a response and does not
  leave \<^verbatim>\<open>process_request\<close>. A call of \<^verbatim>\<open>process_request\<close> returns a response unless the
  \<^verbatim>\<open>try\<close> block ends with an exception derived from \<^verbatim>\<open>BaseException\<close> only; that
  exception leaves \<^verbatim>\<open>process_request\<close> as it is.
\<close>

theorem unexpected_exception_wrapped:
  fixes lib :: "'x pylib"
  shows
    "(expand_params (dict_get d ''params'') = (Inr (args, kwargs) :: 'x exn + _) \<and>
      (args \<noteq> [] \<or> kwargs \<noteq> []) \<and> truthy (dict_get d ''method'') \<and>
      truthy (dict_get d ''version'') \<and> truthy (dict_get d ''id'') \<and>
      lookup reg (dict_get d ''method'') = Inr (Some h) \<and>
      call h args kwargs st = (Raises e, st') \<and> is_exception e \<and>
      (\<forall>m c. e \<noteq> SimpleJsonRpcError m c) \<longrightarrow>
      process_request lib reg (JObj d) st =
        (Envelope \<lparr>protocol = dict_get d ''version'', tid = dict_get d ''id'', action = JNull,
           rpc_method = dict_get d ''method'', result = JNull,
           error = Some \<lparr>code = - 32603, message = format_exc lib e\<rparr>\<rparr>, st')) \<and>
     (try_block lib reg items st = (l, su) \<and> l_raised l = Some x \<and> is_exception x \<and>
      (\<forall>m c. x \<noteq> SimpleJsonRpcError m c) \<longrightarrow>
      process_request lib reg items st =
        (Envelope \<lparr>protocol = l_protocol l, tid = l_tid l, action = JNull,
           rpc_method = l_handler_name l, result = JNull,
           error = Some \<lparr>code = - 32603, message = format_exc lib x\<rparr>\<rparr>, su)) \<and>
     (try_block lib reg items st = (l, su) \<and> (\<forall>y. l_raised l = Some y \<longrightarrow> is_exception y) \<longrightarrow>
      (\<forall>y. fst (process_request lib reg items st) \<noteq> Uncaught y)) \<and>
     (try_block lib reg items st = (l, su) \<and> l_raised l = Some x \<and> \<not> is_exception x \<longrightarrow>
      process_request lib reg items st = (Uncaught x, su))"
proof (intro conjI impI)
  assume h: "expand_params (dict_get d ''params'') = (Inr (args, kwargs) :: 'x exn + _) \<and>
      (args \<noteq> [] \<or> kwargs \<noteq> []) \<and> truthy (dict_get d ''method'') \<and>
      truthy (dict_get d ''version'') \<and> truthy (dict_get d ''id'') \<and>
      lookup reg (dict_get d ''method'') = Inr (Some h) \<and>
      call h args kwargs st = (Raises e, st') \<and> is_exception e \<and>
      (\<forall>m c. e \<noteq> SimpleJsonRpcError m c)"
  then have ok: "py_all [py_or (JArr args) (JObj kwargs), dict_get d ''method'',
                dict_get d ''version'', dict_get d ''id'']"
    by (simp add: py_all4 truthy_py_or)
  from h have n: "expand_params (dict_get d ''params'') = (Inr (args, kwargs) :: 'x exn + _)"
    by simp
  from h have ex: "is_exception e" by simp
  have "try_block lib reg (JObj d) st =
    (\<lparr>l_protocol = dict_get d ''version'', l_tid = dict_get d ''id'',
       l_handler_name = dict_get d ''method'', l_result = Val JNull, l_raised = Some e\<rparr>, st')"
    using try_block_valid[OF n ok, of lib reg st] h by (simp add: resolve_and_call_raises)
  moreover from h have "caught lib e = \<lparr>code = - 32603, message = format_exc lib e\<rparr>"
    by (simp add: caught_unexpected)
  ultimately show "process_request lib reg (JObj d) st =
        (Envelope \<lparr>protocol = dict_get d ''version'', tid = dict_get d ''id'', action = JNull,
           rpc_method = dict_get d ''method'', result = JNull,
           error = Some \<lparr>code = - 32603, message = format_exc lib e\<rparr>\<rparr>, st')"
    using ex by (simp add: process_request_def assemble_def)
next
  assume g: "try_block lib reg items st = (l, su) \<and> l_raised l = Some x \<and> is_exception x \<and>
      (\<forall>m c. x \<noteq> SimpleJsonRpcError m c)"
  then have t: "try_block lib reg items st = (l, su)" and rs: "l_raised l = Some x"
    and ex: "is_exception x"
    by simp_all
  have r: "l_result l = Val JNull"
    by (rule try_block_raised_result[OF t rs])
  from g have "caught lib x = \<lparr>code = - 32603, message = format_exc lib x\<rparr>"
    by (simp add: caught_unexpected)
  with t rs r ex show "process_request lib reg items st =
        (Envelope \<lparr>protocol = l_protocol l, tid = l_tid l, action = JNull,
           rpc_method = l_handler_name l, result = JNull,
           error = Some \<lparr>code = - 32603, message = format_exc lib x\<rparr>\<rparr>, su)"
    by (simp add: process_request_def assemble_def)
next
  assume "try_block lib reg items st = (l, su) \<and> (\<forall>y. l_raised l = Some y \<longrightarrow> is_exception y)"
  then show "\<forall>y. fst (process_request lib reg items st) \<noteq> Uncaught y"
    by (auto simp: process_request_def assemble_def split: option.splits retval.splits)
next
  assume "try_block lib reg items st = (l, su) \<and> l_raised l = Some x \<and> \<not> is_exception x"
  then show "process_request lib reg items st = (Uncaught x, su)"
    by (simp add: process_request_def)
qed

theorem unexpected_exception_wrapped_witness:
  "process_request sample_lib
     [(''boom'', \<lparr>call = (\<lambda>args kwargs st. (Raises (OtherException ()), Suc st)),
                  signature_str = ''()'', doc = None\<rparr>)]
     (JObj [(''version'', JStr ''2.0''), (''method'', JStr ''boom''), (''id'', JStr ''9''),
            (''params'', JArr [JInt 1])]) (0 :: nat) =
   (Envelope \<lparr>protocol = JStr ''2.0'', tid = JStr ''9'', action = JNull,
      rpc_method = JStr ''boom'', result = JNull,
      error = Some \<lparr>code = - 32603, message = ''<traceback>''\<rparr>\<rparr>, Suc 0) \<and>
   process_request sample_lib
     [(''boom'', \<lparr>call = (\<lambda>args kwargs st. (Raises (OtherException ()), Suc st)),
                  signature_str = ''()'', doc = None\<rparr>)]
     (JInt 3) (0 :: nat) =
   (Envelope \<lparr>protocol = JNull, tid = JNull, action = JNull,
      rpc_method = JNull, result = JNull,
      error = Some \<lparr>code = - 32603, message = ''<traceback>''\<rparr>\<rparr>, 0) \<and>
   process_request sample_lib
     [(''stop'', \<lparr>call = (\<lambda>args kwargs st. (Raises KeyboardInterrupt, Suc st)),
                  signature_str = ''()'', doc = None\<rparr>)]
     (JObj [(''version'', JStr ''2.0''), (''method'', JStr ''stop''), (''id'', JStr ''9''),
            (''params'', JArr [JInt 1])]) (0 :: nat) =
   (Uncaught KeyboardInterrupt, Suc 0)"
proof -
  let ?h = "\<lparr>call = (\<lambda>args kwargs st. (Raises (OtherException ()), Suc st)),
                  signature_str = ''()'', doc = None\<rparr> :: (nat, unit) handler"
  let ?k = "\<lparr>call = (\<lambda>args kwargs st. (Raises KeyboardInterrupt, Suc st)),
                  signature_str = ''()'', doc = None\<rparr> :: (nat, unit) handler"
  let ?d = "[(''version'', JStr ''2.0''), (''method'', JStr ''boom''), (''id'', JStr ''9''),
            (''params'', JArr [JInt 1])]"
  let ?dk = "[(''version'', JStr ''2.0''), (''method'', JStr ''stop''), (''id'', JStr ''9''),
            (''params'', JArr [JInt 1])]"
  let ?l = "\<lparr>l_protocol = JNull, l_tid = JNull, l_handler_name = JNull,
             l_result = Val JNull, l_raised = Some (AttributeError :: unit exn)\<rparr>"
  let ?lk = "\<lparr>l_protocol = JStr ''2.0'', l_tid = JStr ''9'', l_handler_name = JStr ''stop'',
             l_result = Val JNull, l_raised = Some (KeyboardInterrupt :: unit exn)\<rparr>"
  have a: "expand_params (dict_get ?d ''params'') = (Inr ([JInt 1], []) :: unit exn + _)"
    by (simp add: expand_params_def dict_get_def)
  have t: "try_block sample_lib [(''boom'', ?h)] (JInt 3) 0 = (?l, 0)"
    by (simp add: try_block_def)
  have tk: "try_block sample_lib [(''stop'', ?k)] (JObj ?dk) 0 = (?lk, Suc 0)"
    by (simp add: try_block_def resolve_and_call_def expand_params_def dict_get_def py_all_def
        py_or_def)
  show ?thesis
    using a t tk
      unexpected_exception_wrapped[where lib = sample_lib and d = ?d and args = "[JInt 1]"
        and kwargs = "[]" and reg = "[(''boom'', ?h)]" and h = ?h and st = 0 and st' = "Suc 0"
        and e = "OtherException ()" and items = "JInt 3" and l = ?l and su = 0
        and x = AttributeError]
      unexpected_exception_wrapped[where lib = sample_lib and reg = "[(''stop'', ?k)]"
        and st = 0 and items = "JObj ?dk" and l = ?lk and su = "Suc 0"
        and x = KeyboardInterrupt]
    by (simp add: dict_get_def sample_lib_def)
qed

section \<open>The built-in ping\<close>

text \<open>
  C3. \<^verbatim>\<open>ping\<close> is in the registry of every new server. Called with no positional and no
  keyword argument it raises \<^verbatim>\<open>TypeError\<close>, since its keyword-only parameter
  \<^verbatim>\<open>kwargs\<close> is missing; it returns \<^verbatim>\<open>pong\<close> when called with the one keyword
  \<^verbatim>\<open>kwargs\<close>. A request that reaches it with positional parameters is answered with
  code -32603.
\<close>

theorem ping_without_parameters_raises:
  "map_of (urls (init url api :: ('s, 'x) server)) ''ping'' = Some ping \<and>
   call (ping :: ('s, 'x) handler) [] [] st = (Raises TypeError, st) \<and>
   call (ping :: ('s, 'x) handler) [] [(''kwargs'', v)] st = (Returns (Val (JStr ''pong'')), st) \<and>
   process_request lib (urls (init url api :: ('s, 'x) server))
     (JObj [(''version'', JStr ''2.0''), (''method'', JStr ''ping''), (''id'', JStr ''1''),
            (''params'', JArr [JInt 1])]) st =
   (Envelope \<lparr>protocol = JStr ''2.0'', tid = JStr ''1'', action = JNull,
      rpc_method = JStr ''ping'', result = JNull,
      error = Some \<lparr>code = - 32603, message = format_exc lib TypeError\<rparr>\<rparr>, st)"
  by (simp add: init_def ping_def process_request_def assemble_def try_block_def resolve_and_call_def
      expand_params_def dict_get_def py_all_def py_or_def json_rpc_format_def)

section \<open>Batches\<close>

text \<open>
  When no exception leaves the loop, the result list of a batch has one item per request,
  in the order of the requests, and each item is what \<^verbatim>\<open>process_request\<close> returns for
  that request in the state the earlier items left.
\<close>

lemma batch_Cons_Inr:
  "batch lib reg (x # xs) st = (Inr rs, st') \<longleftrightarrow>
     (\<exists>r st1 rs'. process_request lib reg x st = (r, st1) \<and> (\<forall>e. r \<noteq> Uncaught e) \<and>
        batch lib reg xs st1 = (Inr rs', st') \<and> rs = r # rs')"
  by (auto split: prod.splits presult.splits sum.splits)

lemma snd_batch_Cons:
  assumes "process_request lib reg x st = (r, st1)" and "\<forall>e. r \<noteq> Uncaught e"
  shows "snd (batch lib reg (x # ys) st) = snd (batch lib reg ys st1)"
  using assms by (cases r) (auto split: prod.splits sum.splits)

lemma batch_length: "batch lib reg xs st = (Inr rs, st') \<Longrightarrow> length rs = length xs"
  by (induction xs arbitrary: st rs) (auto simp: batch_Cons_Inr simp del: batch.simps(2))

lemma batch_nth:
  "batch lib reg xs st = (Inr rs, st') \<Longrightarrow> i < length xs \<Longrightarrow>
   rs ! i = fst (process_request lib reg (xs ! i) (snd (batch lib reg (take i xs) st)))"
proof (induction xs arbitrary: st rs i)
  case Nil
  then show ?case by simp
next
  case (Cons x xs)
  from Cons.prems(1) obtain r st1 rs' where
    p: "process_request lib reg x st = (r, st1)" and u: "\<forall>e. r \<noteq> Uncaught e" and
    b: "batch lib reg xs st1 = (Inr rs', st')" and rs: "rs = r # rs'"
    unfolding batch_Cons_Inr by blast
  show ?case
  proof (cases i)
    case 0
    with p rs show ?thesis by simp
  next
    case (Suc j)
    with Cons.prems(2) have "j < length xs" by simp
    from Cons.IH[OF b this] Suc rs snd_batch_Cons[OF p u, of "take j xs"]
    show ?thesis by (simp del: batch.simps(2))
  qed
qed

text \<open>
  C7. A batch of two requests, the first for a handler that returns a \<^verbatim>\<open>Response\<close>
  object, the second for an unregistered method: the adapter returns no array, since
  serialising the result list raises \<^verbatim>\<open>TypeError\<close>. Sent alone, the first request gets
  the handler's \<^verbatim>\<open>Response\<close> and the second an error response with code -32601.
\<close>

theorem batch_with_raw_response_fails:
  "dispatch_items lib
     [(''raw'', \<lparr>call = (\<lambda>args kwargs st. (Returns (Resp r), st)),
                 signature_str = ''(x)'', doc = None\<rparr>)]
     (JArr [JObj [(''version'', JStr ''2.0''), (''method'', JStr ''raw''), (''id'', JStr ''1''),
                  (''params'', JArr [JInt 1])],
            JObj [(''version'', JStr ''2.0''), (''method'', JStr ''nope''), (''id'', JStr ''2''),
                  (''params'', JArr [JInt 1])]]) st =
   (Inl (Propagated TypeError), st) \<and>
   dispatch_items lib
     [(''raw'', \<lparr>call = (\<lambda>args kwargs st. (Returns (Resp r), st)),
                 signature_str = ''(x)'', doc = None\<rparr>)]
     (JObj [(''version'', JStr ''2.0''), (''method'', JStr ''raw''), (''id'', JStr ''1''),
            (''params'', JArr [JInt 1])]) st =
   (Inr r, st) \<and>
   fst (process_request lib
     [(''raw'', \<lparr>call = (\<lambda>args kwargs st. (Returns (Resp r), st)),
                 signature_str = ''(x)'', doc = None\<rparr>)]
     (JObj [(''version'', JStr ''2.0''), (''method'', JStr ''nope''), (''id'', JStr ''2''),
            (''params'', JArr [JInt 1])]) st) =
   Envelope \<lparr>protocol = JStr ''2.0'', tid = JStr ''2'', action = JNull,
      rpc_method = JStr ''nope'', result = JNull,
      error = Some \<lparr>code = - 32601,
        message = ''JSON-RPC: Method '' @ [CHR 0x22] @ ''nope'' @ [CHR 0x22] @ '' not found''\<rparr>\<rparr>"
  by (simp add: dispatch_items_def process_request_def assemble_def try_block_def resolve_and_call_def
      expand_params_def dict_get_def py_all_def py_or_def py_str_def json_rpc_format_def)

section \<open>Discovery\<close>









section \<open>The dynamic client\<close>

text \<open>
  C2. After the attribute chain \<^verbatim>\<open>client.a.b\<close> the accumulated method name is
  \<^verbatim>\<open>None\<close>, not \<^verbatim>\<open>a.b\<close>; \<^verbatim>\<open>send_request(1, 2)\<close> on it raises \<^verbatim>\<open>AttributeError\<close>
  and builds no payload, and so does \<^verbatim>\<open>send_request(x=1)\<close>.
\<close>

theorem client_chain_loses_method_and_arguments:
  "c_service_name (getattr (getattr (client_init (Url u) None ''2.0'' None) ''a'') ''b'') = None \<and>
   send_request_payload dec uid
     (getattr (getattr (client_init (Url u) None ''2.0'' None) ''a'') ''b'')
     [NotBytes (JInt 1), NotBytes (JInt 2)] [] = Inl AttributeError \<and>
   send_request_payload dec uid (getattr (client_init (Url u) None ''2.0'' None) ''a'')
     [] [(''x'', NotBytes (JInt 1))] = Inl AttributeError"
  by (simp add: getattr_def client_init_def send_request_payload_def)

end
